theory Spec2Isabelle
  imports Main
begin

section \<open>Python values and strings\<close>

text \<open>
  A Python \<open>str\<close> is a sequence of Unicode code points; it is modelled as the list of
  its code points. ASCII literals are written through \<open>asc\<close>; the Arabic literals of
  \<open>helpers.py\<close> are written out as code point lists.
\<close>

type_synonym ustr = "nat list"

definition asc :: "string \<Rightarrow> ustr" where
  "asc s = map of_char s"

text \<open>
  \<open>str.lower()\<close>. Python lower-cases by the Unicode tables. The model carries their part
  below code point 256: A to Z and the capitals of Latin-1 go to their small letters, 32
  further on; every other code point is left as it is. This is what Python does on the
  alphabet \<open>in_alphabet\<close> defined below (the code points below 256, the Arabic block and
  the Unicode whitespace), which holds the English and Arabic vocabulary of \<open>helpers.py\<close>.
  Outside that alphabet (Greek, Cyrillic, the Kelvin sign U+212A, the dotted capital I
  U+0130 and so on) the model does not follow Python, so a statement that depends on what
  lower-casing does to a string is made for strings over the alphabet (\<open>modelled\<close>).
\<close>

definition lower_cp :: "nat \<Rightarrow> nat" where
  "lower_cp c =
     (if (65 \<le> c \<and> c \<le> 90) \<or> (192 \<le> c \<and> c \<le> 214) \<or> (216 \<le> c \<and> c \<le> 222)
      then c + 32 else c)"

definition py_lower :: "ustr \<Rightarrow> ustr" where
  "py_lower s = map lower_cp s"

text \<open>\<open>str.strip()\<close> with no argument removes leading and trailing Unicode whitespace.\<close>

definition is_space :: "nat \<Rightarrow> bool" where
  "is_space c = ((9 \<le> c \<and> c \<le> 13) \<or> (28 \<le> c \<and> c \<le> 32) \<or> c = 133 \<or> c = 160
      \<or> c = 5760 \<or> (8192 \<le> c \<and> c \<le> 8202) \<or> c = 8232 \<or> c = 8233 \<or> c = 8239
      \<or> c = 8287 \<or> c = 12288)"

definition py_strip :: "ustr \<Rightarrow> ustr" where
  "py_strip s = rev (dropWhile is_space (rev (dropWhile is_space s)))"

text \<open>The alphabet on which \<open>py_lower\<close> is Python's \<open>str.lower()\<close>, and the strings over it.\<close>

definition in_alphabet :: "nat \<Rightarrow> bool" where
  "in_alphabet c = (c < 256 \<or> (1536 \<le> c \<and> c \<le> 1791) \<or> is_space c)"

definition modelled :: "ustr \<Rightarrow> bool" where
  "modelled s = list_all in_alphabet s"

text \<open>\<open>a in b\<close> on strings: \<open>a\<close> occurs in \<open>b\<close> as a contiguous run.\<close>

fun starts_with :: "ustr \<Rightarrow> ustr \<Rightarrow> bool" where
  "starts_with [] b = True"
| "starts_with (x # a) [] = False"
| "starts_with (x # a) (y # b) = (x = y \<and> starts_with a b)"

fun py_in :: "ustr \<Rightarrow> ustr \<Rightarrow> bool" where
  "py_in a [] = (a = [])"
| "py_in a (y # b) = (starts_with a (y # b) \<or> py_in a b)"

text \<open>
  A cell of the data frame, as the row hands it to the code: \<open>None\<close>, the float NaN that
  pandas uses for an empty cell, a \<open>bool\<close>, an \<open>int\<close>, a \<open>float\<close> other than NaN, or a
  \<open>str\<close>. Of a float the program observes only whether it is zero (its truth value) and
  its \<open>str()\<close> text, so a float is represented by these two.
\<close>

datatype pyfloat = Float (fl_zero: bool) (fl_text: ustr)

datatype pyval = PNone | PNaN | PBool bool | PInt int | PFloat pyfloat | PStr ustr


text \<open>\<open>pd.isna(value) or value is None\<close> and \<open>pd.notna(value)\<close> on a scalar.\<close>

fun isna :: "pyval \<Rightarrow> bool" where
  "isna PNone = True"
| "isna PNaN = True"
| "isna _ = False"

definition notna :: "pyval \<Rightarrow> bool" where
  "notna v = (\<not> isna v)"

text \<open>Python's truth value of an object, as \<open>if x\<close> and \<open>bool(x)\<close> take it.\<close>

fun truthy :: "pyval \<Rightarrow> bool" where
  "truthy PNone = False"
| "truthy PNaN = True"
| "truthy (PBool b) = b"
| "truthy (PInt i) = (i \<noteq> 0)"
| "truthy (PFloat f) = (\<not> fl_zero f)"
| "truthy (PStr s) = (s \<noteq> [])"

text \<open>\<open>str(value)\<close>.\<close>

fun dec :: "nat \<Rightarrow> ustr" where
  "dec n = (if n < 10 then [48 + n] else dec (n div 10) @ [48 + n mod 10])"

declare dec.simps [simp del]

fun py_str :: "pyval \<Rightarrow> ustr" where
  "py_str PNone = asc ''None''"
| "py_str PNaN = asc ''nan''"
| "py_str (PBool b) = (if b then asc ''True'' else asc ''False'')"
| "py_str (PInt i) = (if i < 0 then 45 # dec (nat (- i)) else dec (nat i))"
| "py_str (PFloat f) = fl_text f"
| "py_str (PStr s) = s"

section \<open>Rows and column resolution\<close>

text \<open>
  A row of the data frame (a pandas \<open>Series\<close>): a partial map from column name to cell.
  A column the sheet does not have is not in the map (\<open>col in row.index\<close> is false).
\<close>

type_synonym row = "ustr \<rightharpoonup> pyval"

text \<open>\<open>_get_column_value(row, possible_columns)\<close>.\<close>

fun get_column_value :: "row \<Rightarrow> ustr list \<Rightarrow> pyval" where
  "get_column_value row [] = PNone"
| "get_column_value row (col # cols) =
     (case row col of
        Some v \<Rightarrow> if notna v then v else get_column_value row cols
      | None \<Rightarrow> get_column_value row cols)"

section \<open>Value normalisation\<close>

definition available :: ustr where
  "available = [1605, 1578, 1608, 1601, 1585]"

definition not_available :: ustr where
  "not_available = [1594, 1610, 1585, 32, 1605, 1578, 1608, 1601, 1585]"

definition boolean_yes :: "ustr list" where
  "boolean_yes = [asc ''true'', asc ''yes'', [1606, 1593, 1605], asc ''1'',
     [1605, 1608, 1580, 1608, 1583], [1605, 1578, 1608, 1601, 1585]]"

definition boolean_no :: "ustr list" where
  "boolean_no = [asc ''false'', asc ''no'', [1604, 1575], asc ''0'',
     [1594, 1610, 1585, 32, 1605, 1608, 1580, 1608, 1583],
     [1594, 1610, 1585, 32, 1605, 1578, 1608, 1601, 1585]]"

text \<open>
  \<open>_normalize_boolean(value)\<close>. The result is a Python value: \<open>None\<close>, a \<open>bool\<close>, or one
  of the two Arabic tokens.
\<close>

fun normalize_boolean :: "pyval \<Rightarrow> pyval" where
  "normalize_boolean PNone = PNone"
| "normalize_boolean PNaN = PNone"
| "normalize_boolean (PBool b) = PBool b"
| "normalize_boolean (PStr s) =
     (let v = py_strip (py_lower s) in
        if v \<in> set boolean_yes then PStr available
        else if v \<in> set boolean_no then PStr not_available
        else PNone)"
| "normalize_boolean (PInt i) = PBool (i \<noteq> 0)"
| "normalize_boolean (PFloat f) = PBool (\<not> fl_zero f)"

definition status_working :: "ustr list" where
  "status_working = [asc ''working'', asc ''active'', [1610, 1593, 1605, 1604],
     [1606, 1588, 1591], [1601, 1593, 1575, 1604], asc ''Automated'', asc ''automated'']"

definition status_not_working :: "ustr list" where
  "status_not_working = [asc ''not working'', asc ''inactive'',
     [1604, 1575, 32, 1610, 1593, 1605, 1604], [1594, 1610, 1585, 32, 1606, 1588, 1591],
     [1605, 1593, 1591, 1604], asc ''Not Automated'', asc ''not automated'']"

text \<open>\<open>_normalize_status(value)\<close>: \<open>None\<close> or a string.\<close>

fun normalize_status :: "pyval \<Rightarrow> ustr option" where
  "normalize_status PNone = None"
| "normalize_status PNaN = None"
| "normalize_status (PStr s) =
     (let v = py_strip (py_lower s) in
        if v \<in> set status_working then Some (asc ''Working'')
        else if v \<in> set status_not_working then Some (asc ''Not Working'')
        else Some v)"
| "normalize_status v = Some (py_str v)"

section \<open>Assembling the records\<close>

text \<open>The dictionary \<open>station_data\<close> built for each row.\<close>

record station =
  region :: pyval
  city :: pyval
  fuel_station :: pyval
  station_status :: "ustr option"
  rfid :: pyval
  smart_cars :: pyval
  diesel :: pyval
  district :: pyval

definition region_aliases :: "ustr list" where
  "region_aliases = [asc ''Region'', asc ''region'']"

definition city_aliases :: "ustr list" where
  "city_aliases = [asc ''City'', [1575, 1604, 1605, 1583, 1610, 1606, 1577], asc ''city'']"

definition fuel_station_aliases :: "ustr list" where
  "fuel_station_aliases = [asc ''Fuel Station Name'', asc ''fuel_station'',
     asc ''station_name'', [1575, 1587, 1605, 32, 1575, 1604, 1605, 1581, 1591, 1577]]"

definition station_status_aliases :: "ustr list" where
  "station_status_aliases = [asc ''Status'', asc ''status of the station'',
     asc ''station_status'', [1581, 1575, 1604, 1577, 32, 1575, 1604, 1605, 1581, 1591, 1577]]"

definition rfid_aliases :: "ustr list" where
  "rfid_aliases = [asc ''Control Service Type'', asc ''RFID'', asc ''rfid'']"

definition smart_cars_aliases :: "ustr list" where
  "smart_cars_aliases = [asc ''Smart Card'', asc ''smart cars'', asc ''smart_cars'',
     [1575, 1604, 1587, 1610, 1575, 1585, 1575, 1578, 32, 1575, 1604, 1584, 1603, 1610, 1577]]"

definition diesel_aliases :: "ustr list" where
  "diesel_aliases = [asc ''Diesel'', asc ''diesel'', [1583, 1610, 1586, 1604]]"

definition district_aliases :: "ustr list" where
  "district_aliases = [[1575, 1587, 1605, 32, 1575, 1604, 1581, 1610],
     [1575, 1604, 1581, 1610], asc ''district'', asc ''area'',
     [1575, 1587, 1605, 32, 1575, 1604, 1581, 1610, 32]]"

definition station_data :: "row \<Rightarrow> station" where
  "station_data row =
     \<lparr> region = get_column_value row region_aliases,
       city = get_column_value row city_aliases,
       fuel_station = get_column_value row fuel_station_aliases,
       station_status = normalize_status (get_column_value row station_status_aliases),
       rfid = normalize_boolean (get_column_value row rfid_aliases),
       smart_cars = normalize_boolean (get_column_value row smart_cars_aliases),
       diesel = normalize_boolean (get_column_value row diesel_aliases),
       district = get_column_value row district_aliases \<rparr>"

datatype error = FileNotFoundError | TypeError | AttributeError

text \<open>
  What one pass through the body of the \<open>for\<close> loop does: \<open>break\<close>, raise, \<open>continue\<close>
  (or fall off the end without appending), or append the record.
\<close>

datatype outcome = Break | Raise error | Continue | Append station

text \<open>
  The city test of lines 57 to 59: \<open>None\<close> when the row passes on to the station-name
  test, otherwise the way the body is left. \<open>.lower()\<close> exists on strings only.
\<close>

definition city_test :: "ustr option \<Rightarrow> pyval \<Rightarrow> outcome option" where
  "city_test flt c =
     (case flt of
        None \<Rightarrow> None
      | Some f \<Rightarrow>
          if f \<noteq> [] \<and> truthy c then
            (case c of
               PStr cs \<Rightarrow> if \<not> py_in (py_lower f) (py_lower cs) then Some Continue else None
             | _ \<Rightarrow> Some (Raise AttributeError))
          else None)"

definition loop_body :: "ustr option \<Rightarrow> row \<Rightarrow> outcome" where
  "loop_body flt row =
     (let sd = station_data row in
        case station_status sd of
          None \<Rightarrow> Raise AttributeError
        | Some st \<Rightarrow>
            if py_lower st = py_lower (asc ''Not Working'') then Break
            else (case city_test flt (city sd) of
                    Some out \<Rightarrow> out
                  | None \<Rightarrow>
                      if truthy (fuel_station sd) \<and> notna (fuel_station sd) then Append sd
                      else Continue))"

text \<open>
  The \<open>for\<close> loop over the rows, with \<open>all_stations\<close> as accumulator. The result is the
  list at the moment the loop is left and the exception that left it, if any.
\<close>

fun scan :: "ustr option \<Rightarrow> row list \<Rightarrow> station list \<Rightarrow> station list \<times> error option" where
  "scan flt [] acc = (acc, None)"
| "scan flt (row # rows) acc =
     (case loop_body flt row of
        Break \<Rightarrow> (acc, None)
      | Raise e \<Rightarrow> (acc, Some e)
      | Continue \<Rightarrow> scan flt rows acc
      | Append sd \<Rightarrow> scan flt rows (acc @ [sd]))"

section \<open>Reading the file\<close>

text \<open>
  The file at a path, as the function meets it: it does not exist; \<open>pd.read_excel\<close>
  raises on it; or it parses into the rows of a data frame.
\<close>

datatype source = Missing | Unreadable | Sheet "row list"

definition dropped_columns :: "ustr list" where
  "dropped_columns = [asc ''Unnamed: 13'', asc ''Region.1'', asc ''# of Sites'',
     asc ''RFID.1'', asc ''Smart Card.1'', asc ''Unnamed: 0'', asc ''SN'']"

text \<open>\<open>df.drop(columns=..., errors='ignore')\<close>, seen from one row.\<close>

definition drop_columns :: "ustr list \<Rightarrow> row \<Rightarrow> row" where
  "drop_columns cols row = (\<lambda>c. if c \<in> set cols then None else row c)"

text \<open>
  Lines 26 to 68 of \<open>read_fuel_station_records\<close>, for the file that \<open>excel_file\<close> names:
  the existence test outside the \<open>try\<close>, then the \<open>try\<close> block whose handler swallows
  every exception and falls through to \<open>return all_stations\<close>.
\<close>

definition read_records :: "ustr option \<Rightarrow> source \<Rightarrow> error + station list" where
  "read_records flt src =
     (case src of
        Missing \<Rightarrow> Inl FileNotFoundError
      | Unreadable \<Rightarrow> Inr []
      | Sheet rows \<Rightarrow> Inr (fst (scan flt (map (drop_columns dropped_columns) rows) [])))"

text \<open>
  Lines 23 to 25. \<open>records_path\<close> is the \<open>str\<close> \<open>"data"\<close>, and \<open>/\<close> is defined on
  \<open>pathlib.Path\<close> objects, not between two strings.
\<close>

datatype pathlike = PlainStr ustr | PathObj ustr

fun truediv :: "pathlike \<Rightarrow> ustr \<Rightarrow> error + ustr" where
  "truediv (PlainStr p) name = Inl TypeError"
| "truediv (PathObj p) name = Inr (p @ 47 # name)"

definition excel_name :: ustr where
  "excel_name = [1605, 1581, 1591, 1575, 1578, 45, 32, 1575, 1604, 1608, 1587, 1591, 1609]
     @ asc ''.xlsx''"

text \<open>
  The function from a given \<open>records_path\<close>; \<open>fs\<close> is the file system, giving the state
  of the file at each path.
\<close>

definition read_records_from :: "pathlike \<Rightarrow> (ustr \<Rightarrow> source) \<Rightarrow> ustr option \<Rightarrow> error + station list" where
  "read_records_from records_path fs flt =
     (case truediv records_path excel_name of
        Inl e \<Rightarrow> Inl e
      | Inr excel_file \<Rightarrow> read_records flt (fs excel_file))"

text \<open>\<open>read_fuel_station_records(city)\<close> as written.\<close>

definition read_fuel_station_records :: "(ustr \<Rightarrow> source) \<Rightarrow> ustr option \<Rightarrow> error + station list" where
  "read_fuel_station_records fs flt = read_records_from (PlainStr (asc ''data'')) fs flt"

section \<open>What a row does to the scan\<close>

text \<open>
  Three properties of an assembled record, read off the loop body: the halt test of
  line 53 succeeds; the body raises (the halt test on a status that is \<open>None\<close>, or the
  city test on a city value that is true but not a string); the record passes the city
  test and the station-name test.
\<close>

definition halts :: "station \<Rightarrow> bool" where
  "halts sd =
     (case station_status sd of
        None \<Rightarrow> False
      | Some st \<Rightarrow> py_lower st = py_lower (asc ''Not Working''))"

definition raises :: "ustr option \<Rightarrow> station \<Rightarrow> bool" where
  "raises flt sd =
     (case station_status sd of
        None \<Rightarrow> True
      | Some st \<Rightarrow>
          (case flt of
             None \<Rightarrow> False
           | Some f \<Rightarrow> f \<noteq> [] \<and> truthy (city sd) \<and> (case city sd of PStr cs \<Rightarrow> False | _ \<Rightarrow> True)))"

definition passes_city :: "ustr option \<Rightarrow> pyval \<Rightarrow> bool" where
  "passes_city flt c =
     (case flt of
        None \<Rightarrow> True
      | Some f \<Rightarrow>
          (case c of
             PStr cs \<Rightarrow> f = [] \<or> cs = [] \<or> py_in (py_lower f) (py_lower cs)
           | _ \<Rightarrow> True))"

definition qualifies :: "ustr option \<Rightarrow> station \<Rightarrow> bool" where
  "qualifies flt sd =
     (truthy (fuel_station sd) \<and> notna (fuel_station sd) \<and> passes_city flt (city sd))"

section \<open>Sample rows\<close>

definition cells :: "(string \<times> pyval) list \<Rightarrow> row" where
  "cells kvs = map_of (map (\<lambda>(k, v). (asc k, v)) kvs)"

definition row_a :: row where
  "row_a = cells [(''Fuel Station Name'', PStr (asc ''A'')), (''Status'', PStr (asc ''Working'')),
     (''City'', PStr (asc ''Riyadh - Al Olaya''))]"

definition row_b :: row where
  "row_b = cells [(''Fuel Station Name'', PStr (asc ''B'')), (''Status'', PStr (asc ''Working'')),
     (''City'', PStr (asc ''Jeddah''))]"

definition row_down :: row where
  "row_down = cells [(''Fuel Station Name'', PStr (asc ''C'')),
     (''Status'', PStr (asc ''Not Working'')), (''City'', PStr (asc ''Riyadh''))]"

definition row_d :: row where
  "row_d = cells [(''Fuel Station Name'', PStr (asc ''D'')), (''Status'', PStr (asc ''Working'')),
     (''City'', PStr (asc ''Riyadh''))]"

definition row_no_status :: row where
  "row_no_status = cells [(''Fuel Station Name'', PStr (asc ''E'')), (''Status'', PNaN),
     (''City'', PStr (asc ''Riyadh''))]"

definition row_no_city :: row where
  "row_no_city = cells [(''Fuel Station Name'', PStr (asc ''F'')),
     (''Status'', PStr (asc ''Working'')), (''City'', PNaN)]"

definition row_no_name :: row where
  "row_no_name = cells [(''Fuel Station Name'', PNaN), (''Status'', PStr (asc ''Working'')),
     (''City'', PStr (asc ''Riyadh''))]"






definition row_two_cities :: row where
  "row_two_cities = cells [(''city'', PStr (asc ''Jeddah'')), (''City'', PStr (asc ''Riyadh''))]"

definition row_blank_city :: row where
  "row_blank_city = cells [(''city'', PStr (asc ''Jeddah'')), (''City'', PNaN)]"

section \<open>Column resolution as the specification words it\<close>

text \<open>
  The specification's \<open>resolve(row, aliasList)\<close>: the value of the first alias, in the
  order of the list, that is present in the row with a value that is not missing, and
  "missing" when there is none. It is compared with the loop of \<open>_get_column_value\<close>.
\<close>

definition present :: "row \<Rightarrow> ustr \<Rightarrow> bool" where
  "present row col = (case row col of None \<Rightarrow> False | Some v \<Rightarrow> notna v)"

definition resolve :: "row \<Rightarrow> ustr list \<Rightarrow> pyval" where
  "resolve row aliases =
     (case find (present row) aliases of
        None \<Rightarrow> PNone
      | Some col \<Rightarrow> (case row col of None \<Rightarrow> PNone | Some v \<Rightarrow> v))"

section \<open>The vocabulary as the specification lists it\<close>

text \<open>
  The two status sets of the specification's \<open>normalize_status\<close>, to be compared with the
  lists of lines 129 and 131.
\<close>

definition working_words :: "ustr list" where
  "working_words = [asc ''working'', asc ''active'', [1610, 1593, 1605, 1604],
     [1606, 1588, 1591], [1601, 1593, 1575, 1604], asc ''automated'']"

definition not_working_words :: "ustr list" where
  "not_working_words = [asc ''not working'', asc ''inactive'',
     [1604, 1575, 32, 1610, 1593, 1605, 1604], [1594, 1610, 1585, 32, 1606, 1588, 1591],
     [1605, 1593, 1591, 1604], asc ''not automated'']"

section \<open>Lemmas on column resolution and the scan\<close>

lemma get_column_value_drop:
  "set aliases \<inter> set cols = {} \<Longrightarrow>
   get_column_value (drop_columns cols row) aliases = get_column_value row aliases"
  by (induction aliases) (auto simp: drop_columns_def split: option.splits)

lemma aliases_kept:
  "set region_aliases \<inter> set dropped_columns = {}"
  "set city_aliases \<inter> set dropped_columns = {}"
  "set fuel_station_aliases \<inter> set dropped_columns = {}"
  "set station_status_aliases \<inter> set dropped_columns = {}"
  "set rfid_aliases \<inter> set dropped_columns = {}"
  "set smart_cars_aliases \<inter> set dropped_columns = {}"
  "set diesel_aliases \<inter> set dropped_columns = {}"
  "set district_aliases \<inter> set dropped_columns = {}"
  by (simp_all add: region_aliases_def city_aliases_def fuel_station_aliases_def
      station_status_aliases_def rfid_aliases_def smart_cars_aliases_def diesel_aliases_def
      district_aliases_def dropped_columns_def asc_def)

lemma station_data_drop: "station_data (drop_columns dropped_columns row) = station_data row"
  by (simp add: station_data_def get_column_value_drop aliases_kept)

lemma loop_body_drop: "loop_body flt (drop_columns dropped_columns row) = loop_body flt row"
  by (simp add: loop_body_def station_data_drop)

lemma scan_drop: "scan flt (map (drop_columns dropped_columns) rows) acc = scan flt rows acc"
  by (induction rows arbitrary: acc) (simp_all add: loop_body_drop split: outcome.splits)

lemma read_records_Sheet: "read_records flt (Sheet rows) = Inr (fst (scan flt rows []))"
  by (simp add: read_records_def scan_drop)

lemma scan_break:
  "loop_body flt r = Break \<Longrightarrow> scan flt (pre @ r # post) acc = scan flt pre acc"
  by (induction pre arbitrary: acc) (simp_all split: outcome.splits)

lemma scan_raise:
  "loop_body flt r = Raise e \<Longrightarrow>
   fst (scan flt (pre @ r # post) acc) = fst (scan flt pre acc)"
  by (induction pre arbitrary: acc) (simp_all split: outcome.splits)

lemma loop_body_halts: "halts (station_data row) \<Longrightarrow> loop_body flt row = Break"
  by (auto simp: loop_body_def halts_def Let_def split: option.splits)

lemma loop_body_raises:
  "\<not> halts (station_data row) \<Longrightarrow> raises flt (station_data row) \<Longrightarrow>
   loop_body flt row = Raise AttributeError"
  by (auto simp: loop_body_def halts_def raises_def city_test_def Let_def
      split: option.splits pyval.splits)

lemma loop_body_passes:
  "\<not> halts (station_data row) \<Longrightarrow> \<not> raises flt (station_data row) \<Longrightarrow>
   loop_body flt row =
     (if qualifies flt (station_data row) then Append (station_data row) else Continue)"
  by (auto simp: loop_body_def halts_def raises_def city_test_def qualifies_def passes_city_def
      Let_def split: option.splits pyval.splits)

lemma scan_clean:
  "\<forall>row \<in> set rows. \<not> halts (station_data row) \<and> \<not> raises flt (station_data row) \<Longrightarrow>
   scan flt rows acc = (acc @ filter (qualifies flt) (map station_data rows), None)"
  by (induction rows arbitrary: acc) (simp_all add: loop_body_passes)

lemmas row_defs = row_a_def row_b_def row_down_def row_d_def row_no_status_def row_no_city_def
  row_no_name_def cells_def asc_def

lemma sample_status:
  "station_status (station_data row_a) = Some (asc ''Working'')"
  "station_status (station_data row_b) = Some (asc ''Working'')"
  "station_status (station_data row_down) = Some (asc ''Not Working'')"
  "station_status (station_data row_d) = Some (asc ''Working'')"
  "station_status (station_data row_no_status) = None"
  "station_status (station_data row_no_city) = Some (asc ''Working'')"
  "station_status (station_data row_no_name) = Some (asc ''Working'')"
  by (simp_all add: station_data_def station_status_aliases_def row_defs notna_def
      py_strip_def py_lower_def lower_cp_def is_space_def status_working_def status_not_working_def)

lemma sample_name:
  "fuel_station (station_data row_a) = PStr (asc ''A'')"
  "fuel_station (station_data row_b) = PStr (asc ''B'')"
  "fuel_station (station_data row_down) = PStr (asc ''C'')"
  "fuel_station (station_data row_d) = PStr (asc ''D'')"
  "fuel_station (station_data row_no_status) = PStr (asc ''E'')"
  "fuel_station (station_data row_no_city) = PStr (asc ''F'')"
  "fuel_station (station_data row_no_name) = PNone"
  by (simp_all add: station_data_def fuel_station_aliases_def row_defs notna_def)

lemma sample_city:
  "city (station_data row_a) = PStr (asc ''Riyadh - Al Olaya'')"
  "city (station_data row_b) = PStr (asc ''Jeddah'')"
  "city (station_data row_down) = PStr (asc ''Riyadh'')"
  "city (station_data row_d) = PStr (asc ''Riyadh'')"
  "city (station_data row_no_status) = PStr (asc ''Riyadh'')"
  "city (station_data row_no_city) = PNone"
  "city (station_data row_no_name) = PStr (asc ''Riyadh'')"
  by (simp_all add: station_data_def city_aliases_def row_defs notna_def)

lemma sample_halts:
  "halts (station_data row_down)"
  "\<not> halts (station_data row_a)"
  "\<not> halts (station_data row_b)"
  "\<not> halts (station_data row_d)"
  "\<not> halts (station_data row_no_status)"
  "\<not> halts (station_data row_no_city)"
  "\<not> halts (station_data row_no_name)"
  by (simp_all add: halts_def sample_status py_lower_def lower_cp_def asc_def)

lemma sample_raises:
  "\<not> raises flt (station_data row_a)"
  "\<not> raises flt (station_data row_b)"
  "\<not> raises flt (station_data row_d)"
  "raises flt (station_data row_no_status)"
  "\<not> raises flt (station_data row_no_city)"
  "\<not> raises flt (station_data row_no_name)"
  by (simp_all add: raises_def sample_status sample_city split: option.splits)

lemma get_column_value_present:
  "get_column_value row cols \<noteq> PNone \<Longrightarrow> notna (get_column_value row cols)"
  by (induction cols) (auto split: option.splits)





lemma missing_status:
  "get_column_value r station_status_aliases = PNone \<Longrightarrow> station_status (station_data r) = None"
  by (simp add: station_data_def)

lemma sample_resolved:
  "get_column_value row_no_status station_status_aliases = PNone"
  "get_column_value row_no_city city_aliases = PNone"
  "get_column_value row_no_name fuel_station_aliases = PNone"
  by (simp_all add: station_status_aliases_def city_aliases_def fuel_station_aliases_def
      row_defs notna_def)

lemma sample_qualifies:
  "qualifies None (station_data row_a)"
  "qualifies None (station_data row_b)"
  "qualifies None (station_data row_d)"
  "qualifies flt (station_data row_no_city)"
  "\<not> qualifies flt (station_data row_no_name)"
  by (simp_all add: qualifies_def passes_city_def sample_name sample_city notna_def asc_def
      split: option.splits)

lemma city_test_missing: "city_test flt PNone = None"
  by (simp add: city_test_def split: option.splits)

lemma py_strip_subset: "set (py_strip s) \<subseteq> set s"
proof -
  have "set (dropWhile is_space (rev (dropWhile is_space s))) \<subseteq> set (rev (dropWhile is_space s))"
    by (rule set_dropWhileD [THEN subsetI])
  also have "\<dots> \<subseteq> set s"
    using set_dropWhileD [of _ is_space s] by auto
  finally show ?thesis
    by (simp add: py_strip_def)
qed

lemma lowered_no_capital: "x \<in> set (py_strip (py_lower s)) \<Longrightarrow> \<not> (65 \<le> x \<and> x \<le> 90)"
proof -
  assume "x \<in> set (py_strip (py_lower s))"
  with py_strip_subset have "x \<in> set (py_lower s)" by blast
  then show ?thesis
    by (auto simp: py_lower_def lower_cp_def split: if_splits)
qed

lemma lowered_not_capitalised:
  "py_strip (py_lower s) \<noteq> asc ''Automated''"
  "py_strip (py_lower s) \<noteq> asc ''Not Automated''"
proof -
  have a: "65 \<in> set (asc ''Automated'')" and n: "78 \<in> set (asc ''Not Automated'')"
    by (simp_all add: asc_def)
  show "py_strip (py_lower s) \<noteq> asc ''Automated''"
    using a lowered_no_capital [of 65 s] by auto
  show "py_strip (py_lower s) \<noteq> asc ''Not Automated''"
    using n lowered_no_capital [of 78 s] by auto
qed

lemma status_lists:
  "py_strip (py_lower s) \<in> set status_working \<longleftrightarrow> py_strip (py_lower s) \<in> set working_words"
  "py_strip (py_lower s) \<in> set status_not_working
     \<longleftrightarrow> py_strip (py_lower s) \<in> set not_working_words"
  using lowered_not_capitalised [of s]
  by (auto simp: status_working_def status_not_working_def working_words_def not_working_words_def)

lemma pending_review:
  "py_strip (py_lower (asc ''Pending Review'')) = asc ''pending review''"
  "py_lower (asc ''Pending Review'') = asc ''pending review''"
  "asc ''pending review'' \<noteq> asc ''Pending Review''"
  by (simp_all add: py_strip_def py_lower_def lower_cp_def is_space_def asc_def)

lemma pending_unknown:
  "asc ''pending review'' \<notin> set working_words"
  "asc ''pending review'' \<notin> set not_working_words"
  by (simp_all add: working_words_def not_working_words_def asc_def)

lemma get_column_value_resolve: "get_column_value row aliases = resolve row aliases"
  by (induction aliases) (auto simp: resolve_def present_def split: option.splits)


lemma py_lower_modelled: "modelled s \<Longrightarrow> modelled (py_lower s)"
  by (induction s) (auto simp: modelled_def py_lower_def lower_cp_def in_alphabet_def)

lemma py_lower_idem: "py_lower (py_lower s) = py_lower s"
  by (induction s) (auto simp: py_lower_def lower_cp_def)







lemma modelled_texts:
  "modelled (asc ''Working'')"
  "modelled (asc ''Not Working'')"
  "modelled (asc ''ACTIVE'')"
  "modelled (asc ''riyadh'')"
  "modelled (asc ''RIYADH'')"
  "modelled (asc ''Riyadh'')"
  "modelled (asc ''Jeddah'')"
  "modelled (asc ''Riyadh - Al Olaya'')"
  "modelled (asc ''Pending Review'')"
  "modelled (asc ''abcdefghijklmnopqrstuvwxyz 0123456789'')"
  "modelled (asc ''ABCDEFGHIJKLMNOPQRSTUVWXYZ 0123456789'')"
  "modelled [201, 99, 111, 108, 101]"
  "modelled [233, 99, 111, 108, 101]"
  "modelled [201, 84, 65, 84]"
  by (simp_all add: modelled_def in_alphabet_def asc_def)

section \<open>The halt on a station that is not working\<close>

text \<open>
  Claim C1 asks that, for every row sequence, the scan halts at the first row whose
  normalised status is "Not Working", the result being the qualifying records of the rows
  before it. The \<open>break\<close> of line 54 does that on the specification's example: the
  statuses Working, Working, Not Working, Working give the records of the first two rows.
  But the halt test of line 53 calls \<open>.lower()\<close> on the normalised status without a guard
  for \<open>None\<close> (lines 57 and 62 have one for the city and the station name). A row with no
  status therefore raises, the handler ends the scan there, and the qualifying record of a
  Working row standing between that row and the first "Not Working" row is not in the
  result: the result below is empty, where the claim has the records of the rows before
  the "Not Working" row.
\<close>

theorem halt_preempted:
  "read_records None (Sheet [row_a, row_b, row_down, row_d])
     = Inr [station_data row_a, station_data row_b] \<and>
   halts (station_data row_down) \<and> \<not> halts (station_data row_no_status) \<and>
   \<not> halts (station_data row_b) \<and> qualifies None (station_data row_b) \<and>
   read_records None (Sheet [row_no_status, row_b, row_down, row_d]) = Inr []"
  by (simp add: read_records_Sheet loop_body_halts loop_body_raises loop_body_passes
      sample_halts sample_raises sample_qualifies)

section \<open>A row without a status\<close>

text \<open>
  Claim C5. When no status alias of a row holds a non-missing value, the normalised status
  is \<open>None\<close>, and the halt test of line 53 calls \<open>.lower()\<close> on it: the loop body raises
  \<open>AttributeError\<close>. The handler of the \<open>try\<close> swallows it, so the scan ends at that row and
  the function returns what was accumulated from the earlier rows: the row itself and all
  rows after it contribute nothing. When the earlier rows neither halt nor raise, that is
  exactly their qualifying records.
\<close>

theorem missing_status_aborts:
  "get_column_value r station_status_aliases = PNone \<Longrightarrow>
   loop_body flt r = Raise AttributeError \<and>
   scan flt (r # post) acc = (acc, Some AttributeError) \<and>
   read_records flt (Sheet (pre @ r # post)) = read_records flt (Sheet pre) \<and>
   ((\<forall>row \<in> set pre. \<not> halts (station_data row) \<and> \<not> raises flt (station_data row)) \<longrightarrow>
      read_records flt (Sheet (pre @ r # post))
        = Inr (filter (qualifies flt) (map station_data pre)))"
proof -
  assume "get_column_value r station_status_aliases = PNone"
  then have st: "station_status (station_data r) = None"
    by (rule missing_status)
  then have body: "loop_body flt r = Raise AttributeError"
    by (simp add: loop_body_def)
  have cut: "read_records flt (Sheet (pre @ r # post)) = read_records flt (Sheet pre)"
    by (simp add: read_records_Sheet scan_raise [OF body])
  show ?thesis
    using body cut by (simp add: read_records_Sheet scan_clean)
qed

text \<open>A Working row, a row without status, a Working row: only the first record.\<close>

theorem missing_status_aborts_witness:
  "get_column_value row_no_status station_status_aliases = PNone \<and>
   loop_body None row_no_status = Raise AttributeError \<and>
   read_records None (Sheet [row_a, row_no_status, row_d]) = Inr [station_data row_a]"
proof -
  have h: "get_column_value row_no_status station_status_aliases = PNone"
    by (simp add: sample_resolved)
  have c: "\<forall>row \<in> set [row_a]. \<not> halts (station_data row) \<and> \<not> raises None (station_data row)"
    by (simp add: sample_halts sample_raises)
  have "loop_body None row_no_status = Raise AttributeError \<and>
      read_records None (Sheet ([row_a] @ row_no_status # [row_d]))
        = Inr (filter (qualifies None) (map station_data [row_a]))"
    using missing_status_aborts [OF h, of None "[row_d]" "[]" "[row_a]"] c by blast
  then show ?thesis
    using h by (simp add: sample_qualifies)
qed

section \<open>Errors other than the missing file\<close>

text \<open>
  Claim C2, as amended. Whenever the file exists, the function returns a list and does
  not raise. When \<open>pd.read_excel\<close> fails, the list is empty. When the body of the loop
  raises at some row, the handler swallows the exception and the list is what the scan
  of the rows before that row accumulated, which need not be empty.
\<close>

theorem errors_swallowed:
  "src \<noteq> Missing \<Longrightarrow>
   (\<exists>recs. read_records flt src = Inr recs) \<and>
   (src = Unreadable \<longrightarrow> read_records flt src = Inr []) \<and>
   (loop_body flt r = Raise e \<and> src = Sheet (pre @ r # post) \<longrightarrow>
      snd (scan flt (r # post) acc) = Some e \<and>
      read_records flt src = read_records flt (Sheet pre))"
proof -
  assume src: "src \<noteq> Missing"
  have "\<exists>recs. read_records flt src = Inr recs"
    using src by (cases src) (simp_all add: read_records_def)
  moreover have "src = Unreadable \<longrightarrow> read_records flt src = Inr []"
    by (simp add: read_records_def)
  moreover have "loop_body flt r = Raise e \<and> src = Sheet (pre @ r # post) \<longrightarrow>
      snd (scan flt (r # post) acc) = Some e \<and>
      read_records flt src = read_records flt (Sheet pre)"
    by (simp add: read_records_Sheet scan_raise)
  ultimately show ?thesis by blast
qed

theorem errors_swallowed_witness:
  "Sheet ([row_a] @ row_no_status # [row_d]) \<noteq> Missing \<and>
   loop_body None row_no_status = Raise AttributeError \<and>
   (\<exists>recs. read_records None (Sheet ([row_a] @ row_no_status # [row_d])) = Inr recs) \<and>
   read_records None (Sheet ([row_a] @ row_no_status # [row_d]))
     = read_records None (Sheet [row_a])"
proof -
  have b: "loop_body None row_no_status = Raise AttributeError"
    by (simp add: loop_body_raises sample_halts sample_raises)
  show ?thesis
    using errors_swallowed [of "Sheet ([row_a] @ row_no_status # [row_d])" None row_no_status
        AttributeError "[row_a]" "[row_d]" "[]"] b
    by blast
qed

text \<open>
  The claim as stated fails for an error raised during the scan: with a Working row
  followed by a row without status, the scan raises at the second row and the function
  returns the record of the first, not the empty list.
\<close>

theorem errors_swallowed_counterexample:
  "snd (scan None [row_a, row_no_status] []) = Some AttributeError \<and>
   read_records None (Sheet [row_a, row_no_status]) = Inr [station_data row_a] \<and>
   read_records None (Sheet [row_a, row_no_status]) \<noteq> Inr []"
  by (simp add: read_records_Sheet loop_body_raises loop_body_passes sample_halts sample_raises
      sample_qualifies)

section \<open>The station name\<close>




section \<open>The city filter on a row without a city\<close>

text \<open>
  Claim C3, as amended. When a filter city is given and the resolved city of a row is
  missing, the guard of line 57 is false and the row is not tested against the filter at
  all: the loop body does on it what it does in an unfiltered query. In particular a row
  with a status other than "Not Working" and a station name is appended, with its city
  field \<open>None\<close>.
\<close>

theorem missing_city_kept:
  "get_column_value r city_aliases = PNone \<Longrightarrow>
   loop_body (Some f) r = loop_body None r \<and>
   (station_status (station_data r) \<noteq> None \<and> \<not> halts (station_data r) \<and>
    truthy (fuel_station (station_data r)) \<longrightarrow>
      loop_body (Some f) r = Append (station_data r))"
proof -
  assume "get_column_value r city_aliases = PNone"
  then have c: "city (station_data r) = PNone"
    by (simp add: station_data_def)
  have same: "loop_body (Some f) r = loop_body None r"
    by (simp add: loop_body_def Let_def c city_test_missing split: option.splits)
  have "fuel_station (station_data r) \<noteq> PNone \<longrightarrow> notna (fuel_station (station_data r))"
    using get_column_value_present [of r fuel_station_aliases] by (simp add: station_data_def)
  then have n: "truthy (fuel_station (station_data r)) \<longrightarrow> notna (fuel_station (station_data r))"
    by (cases "fuel_station (station_data r)") auto
  have "station_status (station_data r) \<noteq> None \<and> \<not> halts (station_data r) \<and>
    truthy (fuel_station (station_data r)) \<longrightarrow>
      loop_body (Some f) r = Append (station_data r)"
    using n by (auto simp: loop_body_def c city_test_missing halts_def Let_def split: option.splits)
  with same show ?thesis by blast
qed

theorem missing_city_kept_witness:
  "get_column_value row_no_city city_aliases = PNone \<and>
   loop_body (Some (asc ''riyadh'')) row_no_city = Append (station_data row_no_city)"
proof -
  have h: "get_column_value row_no_city city_aliases = PNone"
    by (simp add: sample_resolved)
  have c: "station_status (station_data row_no_city) \<noteq> None \<and>
      \<not> halts (station_data row_no_city) \<and> truthy (fuel_station (station_data row_no_city))"
    by (simp add: sample_status sample_halts sample_name asc_def)
  show ?thesis
    using missing_city_kept [OF h, of "asc ''riyadh''"] h c by blast
qed

text \<open>
  The claim as stated fails: under the filter "riyadh", the row without a city is in
  the result.
\<close>

theorem missing_city_kept_counterexample:
  "city (station_data row_no_city) = PNone \<and>
   read_records (Some (asc ''riyadh'')) (Sheet [row_no_city]) = Inr [station_data row_no_city]"
  by (simp add: sample_city read_records_Sheet loop_body_passes sample_halts sample_raises
      sample_qualifies)

section \<open>The city filter on a row with a city\<close>




section \<open>A status outside the vocabulary\<close>

text \<open>
  Claim C4, as amended. A string (over the modelled alphabet) whose lower-cased, trimmed
  form is in neither the Working set nor the Not Working set is returned lower-cased and
  trimmed: line 128 overwrites \<open>value\<close> with \<open>value.lower().strip()\<close>, and line 134 returns
  that. So the string comes back unchanged exactly when it already is in lower case with
  no surrounding whitespace.
\<close>

theorem unrecognised_status:
  "modelled s \<Longrightarrow>
   py_strip (py_lower s) \<notin> set working_words \<Longrightarrow>
   py_strip (py_lower s) \<notin> set not_working_words \<Longrightarrow>
   normalize_status (PStr s) = Some (py_strip (py_lower s)) \<and>
   (normalize_status (PStr s) = Some s \<longleftrightarrow> py_strip (py_lower s) = s)"
  by (auto simp: status_lists Let_def)

text \<open>
  "Pending Review" comes back as "pending review", and the capitals of Latin-1 are
  lowered too.
\<close>

theorem unrecognised_status_witness:
  "modelled (asc ''Pending Review'') \<and>
   py_strip (py_lower (asc ''Pending Review'')) \<notin> set working_words \<and>
   py_strip (py_lower (asc ''Pending Review'')) \<notin> set not_working_words \<and>
   normalize_status (PStr (asc ''Pending Review'')) = Some (asc ''pending review'') \<and>
   normalize_status (PStr [201, 84, 65, 84]) = Some [233, 116, 97, 116]"
proof -
  have m: "modelled (asc ''Pending Review'')"
    by (rule modelled_texts)
  have w: "py_strip (py_lower (asc ''Pending Review'')) \<notin> set working_words"
    unfolding pending_review(1) by (rule pending_unknown(1))
  have n: "py_strip (py_lower (asc ''Pending Review'')) \<notin> set not_working_words"
    unfolding pending_review(1) by (rule pending_unknown(2))
  have "normalize_status (PStr (asc ''Pending Review''))
      = Some (py_strip (py_lower (asc ''Pending Review'')))"
    using unrecognised_status [OF m w n] by blast
  then have p: "normalize_status (PStr (asc ''Pending Review'')) = Some (asc ''pending review'')"
    unfolding pending_review(1) .
  have l: "py_strip (py_lower [201, 84, 65, 84]) = [233, 116, 97, 116]"
    by (simp add: py_strip_def py_lower_def lower_cp_def is_space_def)
  have "[233, 116, 97, 116] \<notin> set working_words"
    and "[233, 116, 97, 116] \<notin> set not_working_words"
    by (simp_all add: working_words_def not_working_words_def asc_def)
  then have "normalize_status (PStr [201, 84, 65, 84]) = Some (py_strip (py_lower [201, 84, 65, 84]))"
    using unrecognised_status [of "[201, 84, 65, 84]"] modelled_texts unfolding l by blast
  then have "normalize_status (PStr [201, 84, 65, 84]) = Some [233, 116, 97, 116]"
    unfolding l .
  with m w n p show ?thesis by blast
qed

text \<open>
  The claim as stated fails on the specification's own example: "Pending Review" is in
  neither set, and comes back as "pending review".
\<close>

theorem unrecognised_status_counterexample:
  "py_lower (asc ''Pending Review'') \<notin> set working_words \<and>
   py_lower (asc ''Pending Review'') \<notin> set not_working_words \<and>
   normalize_status (PStr (asc ''Pending Review'')) = Some (asc ''pending review'') \<and>
   normalize_status (PStr (asc ''Pending Review'')) \<noteq> Some (asc ''Pending Review'')"
proof -
  have "py_strip (py_lower (asc ''Pending Review'')) \<notin> set working_words"
    unfolding pending_review(1) by (rule pending_unknown(1))
  then have w: "py_strip (py_lower (asc ''Pending Review'')) \<notin> set status_working"
    using status_lists(1) by blast
  have "py_strip (py_lower (asc ''Pending Review'')) \<notin> set not_working_words"
    unfolding pending_review(1) by (rule pending_unknown(2))
  then have n: "py_strip (py_lower (asc ''Pending Review'')) \<notin> set status_not_working"
    using status_lists(2) by blast
  have "normalize_status (PStr (asc ''Pending Review''))
      = Some (py_strip (py_lower (asc ''Pending Review'')))"
    using w n by (simp add: Let_def del: set_simps)
  then have r: "normalize_status (PStr (asc ''Pending Review'')) = Some (asc ''pending review'')"
    unfolding pending_review(1) .
  have "py_lower (asc ''Pending Review'') \<notin> set working_words"
    and "py_lower (asc ''Pending Review'') \<notin> set not_working_words"
    unfolding pending_review(2) by (rule pending_unknown)+
  moreover have "normalize_status (PStr (asc ''Pending Review'')) \<noteq> Some (asc ''Pending Review'')"
    unfolding r using pending_review(3) by simp
  ultimately show ?thesis
    using r by blast
qed

section \<open>Normalising the service flags\<close>

text \<open>
  Claim C8. \<open>_normalize_boolean\<close> sends a missing value (\<open>None\<close> or NaN) to \<open>None\<close>; a
  \<open>bool\<close> to itself; a string, lower-cased and trimmed, to the Arabic token for
  "available" when it is one of true, yes, 1 and the three Arabic words for yes, to the
  token for "not available" when it is one of false, no, 0 and the three Arabic words for
  no, and to \<open>None\<close> otherwise; and a number to its truth value as a plain \<open>bool\<close>, so
  that the number 0 gives \<open>False\<close>, which is not what the string "0" gives.
\<close>

theorem normalize_boolean_cases:
  "normalize_boolean PNone = PNone \<and> normalize_boolean PNaN = PNone \<and>
   normalize_boolean (PBool b) = PBool b \<and>
   normalize_boolean (PStr s) =
     (if py_strip (py_lower s) \<in> {asc ''true'', asc ''yes'', [1606, 1593, 1605], asc ''1'',
          [1605, 1608, 1580, 1608, 1583], [1605, 1578, 1608, 1601, 1585]}
      then PStr [1605, 1578, 1608, 1601, 1585]
      else if py_strip (py_lower s) \<in> {asc ''false'', asc ''no'', [1604, 1575], asc ''0'',
          [1594, 1610, 1585, 32, 1605, 1608, 1580, 1608, 1583],
          [1594, 1610, 1585, 32, 1605, 1578, 1608, 1601, 1585]}
      then PStr [1594, 1610, 1585, 32, 1605, 1578, 1608, 1601, 1585]
      else PNone) \<and>
   normalize_boolean (PInt i) = PBool (i \<noteq> 0) \<and>
   normalize_boolean (PFloat x) = PBool (\<not> fl_zero x) \<and>
   normalize_boolean (PInt 0) = PBool False \<and>
   normalize_boolean (PInt 0) \<noteq> normalize_boolean (PStr (asc ''0''))"
proof -
  have "py_strip (py_lower (asc ''0'')) = asc ''0''"
    by (simp add: py_strip_def py_lower_def lower_cp_def is_space_def asc_def)
  then have "normalize_boolean (PStr (asc ''0'')) = PStr not_available"
    by (simp add: Let_def boolean_yes_def boolean_no_def asc_def)
  then show ?thesis
    by (simp add: Let_def boolean_yes_def boolean_no_def available_def not_available_def)
qed

theorem normalize_boolean_cases_witness:
  "normalize_boolean (PStr (asc '' YES '')) = PStr [1605, 1578, 1608, 1601, 1585] \<and>
   normalize_boolean (PStr (asc ''maybe'')) = PNone \<and>
   normalize_boolean (PInt 7) = PBool True"
proof -
  have y: "py_strip (py_lower (asc '' YES '')) = asc ''yes''"
    by (simp add: py_strip_def py_lower_def lower_cp_def is_space_def asc_def)
  have m: "py_strip (py_lower (asc ''maybe'')) = asc ''maybe''"
    by (simp add: py_strip_def py_lower_def lower_cp_def is_space_def asc_def)
  have "normalize_boolean (PStr (asc '' YES '')) = PStr [1605, 1578, 1608, 1601, 1585]"
    using normalize_boolean_cases [of True "asc '' YES ''" 0 "Float True []"]
    unfolding y by (simp add: asc_def)
  moreover have "normalize_boolean (PStr (asc ''maybe'')) = PNone"
    using normalize_boolean_cases [of True "asc ''maybe''" 0 "Float True []"]
    unfolding m by (simp add: asc_def)
  moreover have "normalize_boolean (PInt 7) = PBool True"
    using normalize_boolean_cases [of True "[]" 7 "Float True []"] by simp
  ultimately show ?thesis by blast
qed

section \<open>Column resolution\<close>

text \<open>
  Claim C10. \<open>_get_column_value\<close> computes the specification's \<open>resolve\<close>: the value of the
  first alias of the list that the row has with a non-missing value, and \<open>None\<close> when
  there is none. The record of a row is built from the alias lists written out below,
  which are the lists of the specification, in its order, the last district alias being
  the variant with a trailing space.
\<close>

theorem column_resolution:
  "get_column_value row aliases = resolve row aliases \<and>
   station_data row =
     \<lparr> region = resolve row [asc ''Region'', asc ''region''],
       city = resolve row [asc ''City'', [1575, 1604, 1605, 1583, 1610, 1606, 1577], asc ''city''],
       fuel_station = resolve row [asc ''Fuel Station Name'', asc ''fuel_station'',
         asc ''station_name'', [1575, 1587, 1605, 32, 1575, 1604, 1605, 1581, 1591, 1577]],
       station_status = normalize_status (resolve row [asc ''Status'',
         asc ''status of the station'', asc ''station_status'',
         [1581, 1575, 1604, 1577, 32, 1575, 1604, 1605, 1581, 1591, 1577]]),
       rfid = normalize_boolean (resolve row [asc ''Control Service Type'', asc ''RFID'',
         asc ''rfid'']),
       smart_cars = normalize_boolean (resolve row [asc ''Smart Card'', asc ''smart cars'',
         asc ''smart_cars'',
         [1575, 1604, 1587, 1610, 1575, 1585, 1575, 1578, 32, 1575, 1604, 1584, 1603, 1610, 1577]]),
       diesel = normalize_boolean (resolve row [asc ''Diesel'', asc ''diesel'',
         [1583, 1610, 1586, 1604]]),
       district = resolve row [[1575, 1587, 1605, 32, 1575, 1604, 1581, 1610],
         [1575, 1604, 1581, 1610], asc ''district'', asc ''area'',
         [1575, 1587, 1605, 32, 1575, 1604, 1581, 1610, 32]] \<rparr>"
  unfolding station_data_def get_column_value_resolve region_aliases_def city_aliases_def
    fuel_station_aliases_def station_status_aliases_def rfid_aliases_def smart_cars_aliases_def
    diesel_aliases_def district_aliases_def
  by simp

text \<open>
  The first alias wins when two are present; an alias whose cell is NaN is passed over;
  no alias present gives \<open>None\<close>.
\<close>

theorem column_resolution_witness:
  "get_column_value row_two_cities city_aliases = PStr (asc ''Riyadh'') \<and>
   get_column_value row_blank_city city_aliases = PStr (asc ''Jeddah'') \<and>
   get_column_value row_blank_city region_aliases = PNone"
proof -
  have "resolve row_two_cities city_aliases = PStr (asc ''Riyadh'')"
    and "resolve row_blank_city city_aliases = PStr (asc ''Jeddah'')"
    and "resolve row_blank_city region_aliases = PNone"
    by (simp_all add: resolve_def present_def city_aliases_def region_aliases_def
        row_two_cities_def row_blank_city_def cells_def asc_def notna_def)
  then show ?thesis
    using column_resolution [of row_two_cities city_aliases]
      column_resolution [of row_blank_city city_aliases]
      column_resolution [of row_blank_city region_aliases]
    by simp
qed

section \<open>The missing file\<close>

text \<open>
  Claim C7 asks that a query on a missing source file fails with the not-found error.
  The existence test of lines 26 and 27 does raise \<open>FileNotFoundError\<close>, outside the
  \<open>try\<close>, when \<open>excel_file\<close> is a path object. But as the function is written,
  \<open>records_path\<close> is a plain string, so the join of line 25 raises \<open>TypeError\<close> before the
  test is reached, whatever the file system holds and whatever city is asked for.
\<close>

theorem path_join_raises:
  "read_fuel_station_records fs flt = Inl TypeError \<and>
   read_records_from (PathObj (asc ''data'')) (\<lambda>p. Missing) flt = Inl FileNotFoundError"
  by (simp add: read_fuel_station_records_def read_records_from_def read_records_def)

end
